theory Spec2Isabelle
  imports Complex_Main "HOL-Library.AList" "HOL-Library.Sublist"
begin

section \<open>The OAI segmentation entry point: data model\<close>

text \<open>
  The development embeds \<^verbatim>\<open>main\<close> of
  \<^verbatim>\<open>fuse_examples/imaging/oai_example/downstream/segmentation.py\<close>.
  The function is orchestration code: it reads a configuration, touches the file
  system, talks to ClearML, builds framework objects and finally calls the trainer.
  Objects of the frameworks are records of the arguments they are constructed with;
  calls into the frameworks are recorded, per framework, in the state of the run.
\<close>

subsection \<open>Errors\<close>

datatype error =
    AssertionError string
  | UnboundLocalError string
  | FileNotFoundError string
  | FileExistsError string
  | KeyError string
  | IndexError
  | AttributeError string
  | RuntimeError string
  | LibraryError string

subsection \<open>Strings and paths\<close>

text \<open>Python's \<^verbatim>\<open>sub in s\<close> on strings.\<close>

fun str_contains :: "string \<Rightarrow> string \<Rightarrow> bool" where
  "str_contains sub [] = (sub = [])"
| "str_contains sub (c # cs) = (prefix sub (c # cs) \<or> str_contains sub cs)"

text \<open>
  Python's \<^verbatim>\<open>s.replace(old, new)\<close>: the occurrences of \<open>old\<close> are replaced from
  left to right, without overlap; an empty \<open>old\<close> matches before every character and at
  the end.
\<close>

function str_replace :: "string \<Rightarrow> string \<Rightarrow> string \<Rightarrow> string" where
  "str_replace old new [] = (if old = [] then new else [])"
| "str_replace old new (c # cs) =
     (if old = [] then new @ c # str_replace old new cs
      else if prefix old (c # cs) then new @ str_replace old new (drop (length old) (c # cs))
      else c # str_replace old new cs)"
  by pat_completeness auto
termination
  by (relation "measure (\<lambda>(old, new, s). length s)") auto

text \<open>Python's \<^verbatim>\<open>s.split(c)\<close> for a separator of one character.\<close>

fun split_char :: "char \<Rightarrow> string \<Rightarrow> string list" where
  "split_char c [] = [[]]"
| "split_char c (x # xs) =
     (if x = c then [] # split_char c xs
      else (case split_char c xs of [] \<Rightarrow> [[x]] | p # ps \<Rightarrow> (x # p) # ps))"

text \<open>Python's \<^verbatim>\<open>sep.join(parts)\<close>.\<close>

fun str_join :: "string \<Rightarrow> string list \<Rightarrow> string" where
  "str_join sep [] = []"
| "str_join sep [p] = p"
| "str_join sep (p # q # ps) = p @ sep @ str_join sep (q # ps)"

text \<open>Python's \<^verbatim>\<open>str(x)\<close> for an integer.\<close>

function digits :: "nat \<Rightarrow> string" where
  "digits n = (if n < 10 then [''0123456789'' ! n] else digits (n div 10) @ [''0123456789'' ! (n mod 10)])"
  by pat_completeness auto
termination
  by (relation "measure (\<lambda>n. n)") auto

declare digits.simps [simp del]

definition str_int :: "int \<Rightarrow> string" where
  "str_int i = (if i < 0 then CHR ''-'' # digits (nat (- i)) else digits (nat i))"

text \<open>\<^verbatim>\<open>os.path.join(a, b)\<close> on a POSIX system, for two components.\<close>

definition path_join :: "string \<Rightarrow> string \<Rightarrow> string" where
  "path_join a b =
     (if b \<noteq> [] \<and> hd b = CHR ''/'' then b
      else if a = [] \<or> last a = CHR ''/'' then a @ b
      else a @ ''/'' @ b)"

subsection \<open>Tensors, state dicts, checkpoints, samples\<close>

text \<open>
  A tensor is its shape and its flattened content. The entry point never computes on
  tensors itself; it moves them between dictionaries and hands them to the tensor library.
\<close>

record tensor =
  shape :: "nat list"
  content :: "int list"

text \<open>
  A Python dictionary whose order matters is an association list with distinct keys, in
  insertion order; \<open>AList.update\<close> is the assignment \<^verbatim>\<open>d[k] = v\<close> (an existing key
  keeps its place, a new one goes last).
\<close>

type_synonym state_dict = "(string \<times> tensor) list"

definition dict_of_items :: "('k \<times> 'v) list \<Rightarrow> ('k \<times> 'v) list" where
  "dict_of_items items = foldl (\<lambda>d (k, v). AList.update k v d) [] items"

text \<open>The values of a checkpoint file's top-level dictionary.\<close>

datatype ckpt_value = StateDict state_dict | OtherValue

type_synonym checkpoint = "(string \<times> ckpt_value) list"

text \<open>
  Modelled from the spec: \<^verbatim>\<open>NDict\<close> (\<^verbatim>\<open>fuse.utils.ndict\<close>), the sample dictionary, is not
  among the sources; the spec calls it a sample-dictionary abstraction. It is modelled as
  a map from the full key to the value.
\<close>

type_synonym sample = "string \<rightharpoonup> tensor"

subsection \<open>The configuration\<close>

text \<open>
  The fields of \<^verbatim>\<open>cfg\<close> that \<^verbatim>\<open>main\<close> reads. A path that may be \<^verbatim>\<open>None\<close> is an option;
  a value that is only tested for truth (\<^verbatim>\<open>cfg.clearml\<close>, \<^verbatim>\<open>cfg.aug\<close>) is its truth value.
\<close>

record config =
  results_dir :: string
  cuda_devices :: "int list"
  suprem_weights :: "string option"
  dino_weights :: "string option"
  resume_training_from :: "string option"
  test_ckpt :: "string option"
  ckpt_path :: "string option"
  experiment_name :: string
  tags :: "string list"
  backbone :: string
  clearml :: bool
  clearml_project_name :: string
  num_classes :: nat
  csv_path :: string
  train_folds :: "int list"
  val_folds :: "int list"
  test_folds :: "int list"
  aug :: bool
  resize_to :: "nat list"
  batch_size :: nat
  n_workers :: nat
  include_background :: bool
  sigmoid :: bool
  softmax :: bool
  learning_rate :: real
  weight_decay :: real
  n_epochs :: nat
  grad_clip :: real
  accumulate_grad_batches :: nat
  precision :: string

subsection \<open>Framework objects\<close>

text \<open>Each object is the record of the arguments of its constructor call.\<close>

record unet3d =
  for_cls :: bool
  weights :: state_dict

record conv3d =
  in_channels :: nat
  out_channels :: nat
  kernel_size :: nat

record head_dense_segmentation =
  head_name :: string
  head_conv_inputs :: "(string \<times> nat) list"
  shared_classifier_head :: conv3d

record model_multi_head =
  mm_conv_inputs :: "(string \<times> nat) list"
  mm_backbone :: unet3d
  mm_heads :: "head_dense_segmentation list"

text \<open>A row of the CSV: its \<^verbatim>\<open>fold\<close> column and the rest of the row.\<close>

record row =
  fold_col :: int
  rest_of_row :: string

record dataset =
  ds_rows :: "row list"
  ds_validation :: bool
  ds_resize_to :: "nat list"

record dataloader =
  dl_dataset :: dataset
  dl_shuffle :: bool
  dl_drop_last :: bool
  dl_batch_size :: nat
  dl_num_workers :: nat
  dl_generator :: "nat option"

record generalized_dice_loss =
  gdl_include_background :: bool
  gdl_sigmoid :: bool
  gdl_softmax :: bool

record loss_default =
  loss_pred :: string
  loss_target :: string
  loss_callable :: generalized_dice_loss
  loss_weight :: real

record metric_dice =
  metric_pred :: string
  metric_target :: string
  pre_collect_process_func :: "sample \<Rightarrow> error option \<times> sample"

record adam =
  adam_params_of :: model_multi_head
  adam_lr :: real
  adam_weight_decay :: real

record cosine_annealing_lr =
  sched_optimizer :: adam
  sched_T_max :: nat

datatype opt_entry =
    Optimizer adam
  | LrSchConfig "(string \<times> cosine_annealing_lr) list"

datatype callback = LearningRateMonitor string

record lightning_module_default =
  pl_model_dir :: string
  pl_model :: model_multi_head
  pl_losses :: "(string \<times> loss_default) list"
  pl_train_metrics :: "(string \<times> metric_dice) list"
  pl_validation_metrics :: "(string \<times> metric_dice) list"
  pl_test_metrics :: "(string \<times> metric_dice) list"
  pl_optimizers_and_lr_schs :: "(string \<times> opt_entry) list"
  pl_callbacks :: "callback list"
  pl_save_model :: bool
  pl_log_unit :: string

record trainer =
  tr_default_root_dir :: string
  tr_max_epochs :: nat
  tr_accelerator :: string
  tr_devices :: nat
  tr_strategy :: string
  tr_num_sanity_val_steps :: nat
  tr_gradient_clip_val :: real
  tr_deterministic :: bool
  tr_accumulate_grad_batches :: nat
  tr_precision :: string

subsection \<open>The state of a run and its environment\<close>

datatype clearml_call =
    TaskCreate string string
  | TaskInit string string string nat "string list"
  | TaskConnect config
  | TaskAddTags "string list"

datatype model_call =
    NewUNet3D bool
  | TorchLoad string
  | LoadStateDict state_dict bool
  | NewModelMultiHead model_multi_head

datatype framework_call =
    FuseLoggerStart string
  | SetSeed nat bool
  | ReadCsv string

datatype trainer_call =
    Validate lightning_module_default dataloader "string option"
  | Fit lightning_module_default dataloader dataloader "string option"

text \<open>
  What a run of \<^verbatim>\<open>main\<close> changes: the directories and files of the file system (full
  path names, in the order a listing returns them), the process environment, the lines
  printed, and the calls made into ClearML, into the model library, into the rest of the
  frameworks and into the trainer, each in call order.
\<close>

record world =
  dirs :: "string list"
  files :: "string list"
  environ :: "(string \<times> string) list"
  stdout :: "string list"
  clearml_calls :: "clearml_call list"
  model_calls :: "model_call list"
  framework_calls :: "framework_call list"
  trainer_calls :: "trainer_call list"

text \<open>
  What a run reads and cannot change: the checkpoint files and CSV files by path, the
  freshly initialised parameters of a \<^verbatim>\<open>UNet3D\<close>, the id ClearML gives a new task, the
  number of CUDA devices, and the tensor library's \<^verbatim>\<open>argmax(axis=0)\<close>.
\<close>

record env =
  checkpoints :: "(string \<times> checkpoint) list"
  csv_files :: "(string \<times> row list) list"
  unet3d_init :: state_dict
  fresh_task_id :: string
  cuda_device_count :: nat
  argmax_axis0 :: "tensor \<Rightarrow> error + tensor"

text \<open>
  The names \<^verbatim>\<open>main\<close> has bound when it reaches its end (the function itself returns
  \<^verbatim>\<open>None\<close>).
\<close>

record locals =
  loc_model_dir :: string
  loc_tags :: "string list"
  loc_model :: model_multi_head
  loc_train_ds :: dataset
  loc_val_ds :: dataset
  loc_test_ds :: dataset
  loc_train_dl :: dataloader
  loc_val_dl :: dataloader
  loc_test_dl :: dataloader
  loc_losses :: "(string \<times> loss_default) list"
  loc_train_metrics :: "(string \<times> metric_dice) list"
  loc_val_metrics :: "(string \<times> metric_dice) list"
  loc_optimizers_and_lr_schs :: "(string \<times> opt_entry) list"
  loc_ckpt_path :: "string option"
  loc_pl_module :: lightning_module_default
  loc_pl_trainer :: trainer

section \<open>The entry point\<close>

subsection \<open>Sequencing, file system, printing\<close>

text \<open>
  A statement that may raise returns the error or its value, together with the state it
  leaves; \<open>and_then\<close> runs the rest of the function only after a value.
\<close>

definition and_then ::
  "(error + 'a) \<times> world \<Rightarrow> ('a \<Rightarrow> world \<Rightarrow> (error + 'b) \<times> world) \<Rightarrow> (error + 'b) \<times> world" where
  "and_then r f = (case r of (Inl e, w) \<Rightarrow> (Inl e, w) | (Inr x, w) \<Rightarrow> f x w)"

definition set_environ :: "string \<Rightarrow> string \<Rightarrow> world \<Rightarrow> world" where
  "set_environ k v w = w\<lparr>environ := AList.update k v (environ w)\<rparr>"

definition print :: "string \<Rightarrow> world \<Rightarrow> world" where
  "print line w = w\<lparr>stdout := stdout w @ [line]\<rparr>"

definition isdir :: "world \<Rightarrow> string \<Rightarrow> bool" where
  "isdir w p = (p \<in> set (dirs w))"

text \<open>
  \<^verbatim>\<open>os.makedirs(p)\<close>: raises when the path exists already, as a file or as a directory.
  Path names are compared as they are written.
\<close>

definition makedirs :: "string \<Rightarrow> world \<Rightarrow> (error + unit) \<times> world" where
  "makedirs p w =
     (if p \<in> set (files w) \<or> p \<in> set (dirs w) then (Inl (FileExistsError p), w)
      else (Inr (), w\<lparr>dirs := dirs w @ [p]\<rparr>))"

text \<open>\<^verbatim>\<open>with open(p, "w"): pass\<close>: the file exists afterwards, and is empty.\<close>

definition open_w :: "string \<Rightarrow> world \<Rightarrow> world" where
  "open_w p w = (if p \<in> set (files w) then w else w\<lparr>files := files w @ [p]\<rparr>)"

text \<open>
  \<^verbatim>\<open>glob(d + "/*.cmlid")\<close> for a directory name \<open>d\<close> without glob metacharacters and
  without a trailing slash: the files directly in \<open>d\<close> whose name ends in \<^verbatim>\<open>.cmlid\<close>
  and does not start with a dot (which \<^verbatim>\<open>*\<close> does not match), in listing order.
\<close>

definition is_marker_name :: "string \<Rightarrow> bool" where
  "is_marker_name n = (n \<noteq> [] \<and> hd n \<noteq> CHR ''.'' \<and> CHR ''/'' \<notin> set n \<and> suffix ''.cmlid'' n)"

definition glob_cmlid :: "world \<Rightarrow> string \<Rightarrow> string list" where
  "glob_cmlid w d =
     filter (\<lambda>p. prefix (d @ ''/'') p \<and> is_marker_name (drop (length d + 1) p)) (files w)"

subsection \<open>Lines 40 to 51: the assertion\<close>

definition count_weights :: "config \<Rightarrow> nat" where
  "count_weights cfg =
     length (filter (\<lambda>x. x \<noteq> None)
       [suprem_weights cfg, dino_weights cfg, resume_training_from cfg, test_ckpt cfg])"

subsection \<open>Lines 59 to 77: ClearML\<close>

definition clearml_block ::
  "config \<Rightarrow> env \<Rightarrow> string \<Rightarrow> string list \<Rightarrow> world \<Rightarrow> (error + unit) \<times> world" where
  "clearml_block cfg env model_dir tags' w0 =
     (if clearml cfg then
        let w1 =
          (if length (glob_cmlid w0 model_dir) = 0 then
             open_w (path_join model_dir (fresh_task_id env @ ''.cmlid''))
               (w0\<lparr>clearml_calls := clearml_calls w0 @
                      [TaskCreate (clearml_project_name cfg) (experiment_name cfg)]\<rparr>)
           else w0)
        in (case glob_cmlid w1 model_dir of
              [] \<Rightarrow> (Inl IndexError, w1)
            | m # _ \<Rightarrow>
                let clearml_task_id = hd (split_char CHR ''.'' (last (split_char CHR ''/'' m)))
                in (Inr (), w1\<lparr>clearml_calls := clearml_calls w1 @
                      [TaskInit (clearml_project_name cfg) (experiment_name cfg) clearml_task_id 0 tags',
                       TaskConnect cfg,
                       TaskAddTags (tags cfg)]\<rparr>))
      else (Inr (), w0))"

subsection \<open>Lines 80 to 115: the model\<close>

definition torch_load :: "env \<Rightarrow> string \<Rightarrow> world \<Rightarrow> (error + checkpoint) \<times> world" where
  "torch_load env p w =
     (let w1 = w\<lparr>model_calls := model_calls w @ [TorchLoad p]\<rparr>
      in case map_of (checkpoints env) p of
           None \<Rightarrow> (Inl (FileNotFoundError p), w1)
         | Some ck \<Rightarrow> (Inr ck, w1))"

text \<open>\<^verbatim>\<open>ck[key].items()\<close> on a loaded checkpoint.\<close>

definition ckpt_items :: "checkpoint \<Rightarrow> string \<Rightarrow> error + state_dict" where
  "ckpt_items ck key =
     (case map_of ck key of
        None \<Rightarrow> Inl (KeyError key)
      | Some OtherValue \<Rightarrow> Inl (AttributeError ''items'')
      | Some (StateDict items) \<Rightarrow> Inr items)"

text \<open>The two dictionary comprehensions of lines 88 to 92 and 97 to 100.\<close>

definition dino_state_dict :: "state_dict \<Rightarrow> state_dict" where
  "dino_state_dict items =
     dict_of_items
       (map (\<lambda>(k, v). (str_replace ''teacher_backbone.'' [] k, v))
          (filter (\<lambda>(k, v). str_contains ''teacher_backbone.'' k) items))"

definition suprem_state_dict :: "state_dict \<Rightarrow> state_dict" where
  "suprem_state_dict items =
     dict_of_items (map (\<lambda>(k, v). (str_replace ''module.backbone.'' [] k, v)) items)"

text \<open>Lines 83 to 102: the state dict that is going to be loaded.\<close>

definition select_state_dict ::
  "config \<Rightarrow> env \<Rightarrow> unet3d \<Rightarrow> world \<Rightarrow> (error + state_dict) \<times> world" where
  "select_state_dict cfg env backbone' w =
     (case dino_weights cfg of
        Some p \<Rightarrow>
          and_then (torch_load env p (print (''LOADING ckpt from '' @ p) w)) (\<lambda>state_dict w1.
            case ckpt_items state_dict ''state_dict'' of
              Inl e \<Rightarrow> (Inl e, w1)
            | Inr items \<Rightarrow> (Inr (dino_state_dict items), w1))
      | None \<Rightarrow>
          (case suprem_weights cfg of
             Some p \<Rightarrow>
               and_then (torch_load env p w) (\<lambda>state_dict w1.
                 case ckpt_items state_dict ''net'' of
                   Inl e \<Rightarrow> (Inl e, w1)
                 | Inr items \<Rightarrow> (Inr (suprem_state_dict items), w1))
           | None \<Rightarrow> (Inr (weights backbone'), w)))"

text \<open>
  \<^verbatim>\<open>load_state_dict(sd, strict=False)\<close> of the tensor library: a parameter of the module
  takes the value \<open>sd\<close> has for its name, when it has one; names only one side knows are
  ignored; a value of another shape is an error also when not strict.
\<close>

definition load_state_dict :: "unet3d \<Rightarrow> state_dict \<Rightarrow> error + unet3d" where
  "load_state_dict m sd =
     (if \<exists>(k, v) \<in> set (weights m). (case map_of sd k of Some t \<Rightarrow> shape t \<noteq> shape v | None \<Rightarrow> False)
      then Inl (RuntimeError ''size mismatch'')
      else Inr (m\<lparr>weights :=
             map (\<lambda>(k, v). (k, case map_of sd k of Some t \<Rightarrow> t | None \<Rightarrow> v)) (weights m)\<rparr>))"

text \<open>
  Lines 80 to 105. The value is the pair of \<^verbatim>\<open>backbone\<close> and \<^verbatim>\<open>conv_inputs\<close> when the
  branch has bound them, \<open>None\<close> when it has not.
\<close>

definition backbone_block ::
  "config \<Rightarrow> env \<Rightarrow> world \<Rightarrow> (error + (unet3d \<times> (string \<times> nat) list) option) \<times> world" where
  "backbone_block cfg env w =
     (if backbone cfg = ''unet3d'' then
        let backbone0 = \<lparr>for_cls = False, weights = unet3d_init env\<rparr>;
            w1 = w\<lparr>model_calls := model_calls w @ [NewUNet3D False]\<rparr>
        in and_then (select_state_dict cfg env backbone0 w1) (\<lambda>state_dict w2.
             let w3 = w2\<lparr>model_calls := model_calls w2 @ [LoadStateDict state_dict False]\<rparr>
             in case load_state_dict backbone0 state_dict of
                  Inl e \<Rightarrow> (Inl e, w3)
                | Inr backbone1 \<Rightarrow> (Inr (Some (backbone1, [(''model.backbone_features'', 512)])), w3))
      else (Inr None, w))"

text \<open>Lines 107 to 115.\<close>

definition model_block :: "config \<Rightarrow> env \<Rightarrow> world \<Rightarrow> (error + model_multi_head) \<times> world" where
  "model_block cfg env w =
     and_then (backbone_block cfg env w) (\<lambda>bound w1.
       case bound of
         None \<Rightarrow> (Inl (UnboundLocalError ''conv_inputs''), w1)
       | Some (backbone', conv_inputs) \<Rightarrow>
           let heads =
                 [\<lparr>head_name = ''head_seg'',
                   head_conv_inputs = conv_inputs,
                   shared_classifier_head =
                     \<lparr>in_channels = 64, out_channels = num_classes cfg, kernel_size = 1\<rparr>\<rparr>];
               model = \<lparr>mm_conv_inputs = [(''img'', 1)], mm_backbone = backbone', mm_heads = heads\<rparr>
           in (Inr model, w1\<lparr>model_calls := model_calls w1 @ [NewModelMultiHead model]\<rparr>))"

subsection \<open>Lines 125 to 177: logger, seed, datasets, data loaders\<close>

text \<open>
  Lines 125 to 132; the value is \<^verbatim>\<open>rand_gen\<close>, the generator seeded by
  \<^verbatim>\<open>Seed.set_seed\<close>, known by its seed.
\<close>

definition logger_and_seed :: "string \<Rightarrow> world \<Rightarrow> nat \<times> world" where
  "logger_and_seed model_dir w =
     (let w1 = w\<lparr>framework_calls := framework_calls w @ [FuseLoggerStart model_dir]\<rparr>;
          w2 = print ''Done'' w1;
          w3 = set_environ ''CUBLAS_WORKSPACE_CONFIG'' '':4096:8'' w2;
          w4 = w3\<lparr>framework_calls := framework_calls w3 @ [SetSeed 1234 True]\<rparr>
      in (1234, w4))"

definition read_csv :: "env \<Rightarrow> string \<Rightarrow> world \<Rightarrow> (error + row list) \<times> world" where
  "read_csv env p w =
     (let w1 = w\<lparr>framework_calls := framework_calls w @ [ReadCsv p]\<rparr>
      in case map_of (csv_files env) p of
           None \<Rightarrow> (Inl (FileNotFoundError p), w1)
         | Some df \<Rightarrow> (Inr df, w1))"

text \<open>The three names the loop of line 138 runs over, and \<^verbatim>\<open>cfg[f"{_set}_folds"]\<close>.\<close>

datatype split = Train | Val | Test

fun cfg_folds :: "config \<Rightarrow> split \<Rightarrow> int list" where
  "cfg_folds cfg Train = train_folds cfg"
| "cfg_folds cfg Val = val_folds cfg"
| "cfg_folds cfg Test = test_folds cfg"

text \<open>Line 139: \<^verbatim>\<open>df_all[df_all.fold.isin(folds)]\<close>.\<close>

definition rows_in_folds :: "row list \<Rightarrow> int list \<Rightarrow> row list" where
  "rows_in_folds df_all folds = filter (\<lambda>r. fold_col r \<in> set folds) df_all"

definition dfs :: "config \<Rightarrow> row list \<Rightarrow> split \<Rightarrow> row list" where
  "dfs cfg df_all s = rows_in_folds df_all (cfg_folds cfg s)"

text \<open>
  Modelled from the spec: \<^verbatim>\<open>SegOAI.dataset\<close>, one of the dataset adapters, is not
  among the sources. A dataset is the record of the rows and arguments it is built from.
\<close>

definition SegOAI_dataset :: "row list \<Rightarrow> bool \<Rightarrow> nat list \<Rightarrow> dataset" where
  "SegOAI_dataset df validation rs = \<lparr>ds_rows = df, ds_validation = validation, ds_resize_to = rs\<rparr>"

definition train_dataloader :: "config \<Rightarrow> dataset \<Rightarrow> dataloader" where
  "train_dataloader cfg train_ds =
     \<lparr>dl_dataset = train_ds, dl_shuffle = True, dl_drop_last = False,
      dl_batch_size = batch_size cfg, dl_num_workers = n_workers cfg, dl_generator = None\<rparr>"

definition eval_dataloader :: "config \<Rightarrow> dataset \<Rightarrow> nat \<Rightarrow> dataloader" where
  "eval_dataloader cfg ds rand_gen =
     \<lparr>dl_dataset = ds, dl_shuffle = False, dl_drop_last = False,
      dl_batch_size = 1, dl_num_workers = n_workers cfg, dl_generator = Some rand_gen\<rparr>"

subsection \<open>Lines 181 to 230: loss, metrics, optimizer, scheduler\<close>

definition losses :: "config \<Rightarrow> (string \<times> loss_default) list" where
  "losses cfg =
     (let callable_loss =
            \<lparr>gdl_include_background = include_background cfg,
             gdl_sigmoid = sigmoid cfg,
             gdl_softmax = softmax cfg\<rparr>
      in [(''generalized_dice_loss'',
           \<lparr>loss_pred = ''model.logits.head_seg'', loss_target = ''seg'',
            loss_callable = callable_loss, loss_weight = 1.0\<rparr>)])"

text \<open>
  Lines 197 to 200. The function changes the sample it is given and returns that same
  object, so the model returns the content of the sample: the new one, or the one reached
  when an error stopped it. A missing key is a \<^verbatim>\<open>KeyError\<close>; the tensor library's
  \<^verbatim>\<open>argmax\<close> may fail as well.
\<close>

definition pre_process_for_dice :: "env \<Rightarrow> sample \<Rightarrow> error option \<times> sample" where
  "pre_process_for_dice env sample0 =
     (case sample0 ''model.logits.head_seg'' of
        None \<Rightarrow> (Some (KeyError ''model.logits.head_seg''), sample0)
      | Some logits \<Rightarrow>
          (case argmax_axis0 env logits of
             Inl e \<Rightarrow> (Some e, sample0)
           | Inr a \<Rightarrow>
               let sample1 = sample0(''model.logits.head_seg'' \<mapsto> a)
               in (case sample1 ''seg'' of
                     None \<Rightarrow> (Some (KeyError ''seg''), sample1)
                   | Some seg \<Rightarrow>
                       (case argmax_axis0 env seg of
                          Inl e \<Rightarrow> (Some e, sample1)
                        | Inr b \<Rightarrow> (None, sample1(''seg'' \<mapsto> b))))))"

definition train_metrics :: "(string \<times> metric_dice) list" where
  "train_metrics = []"

definition val_metrics :: "env \<Rightarrow> (string \<times> metric_dice) list" where
  "val_metrics env =
     [(''dice'',
       \<lparr>metric_pred = ''model.logits.head_seg'', metric_target = ''seg'',
        pre_collect_process_func = pre_process_for_dice env\<rparr>)]"

definition optimizers_and_lr_schs :: "config \<Rightarrow> model_multi_head \<Rightarrow> (string \<times> opt_entry) list" where
  "optimizers_and_lr_schs cfg model =
     (let optimizer =
            \<lparr>adam_params_of = model, adam_lr = learning_rate cfg,
             adam_weight_decay = weight_decay cfg\<rparr>;
          lr_scheduler = \<lparr>sched_optimizer = optimizer, sched_T_max = n_epochs cfg\<rparr>;
          lr_sch_config = dict_of_items [(''scheduler'', lr_scheduler)];
          d = dict_of_items [(''optimizer'', Optimizer optimizer)]
      in AList.update ''lr_scheduler'' (LrSchConfig lr_sch_config) d)"

subsection \<open>Lines 234 to 279: module, trainer, run\<close>

definition callbacks :: "callback list" where
  "callbacks = [LearningRateMonitor ''epoch'']"

definition pl_module ::
  "config \<Rightarrow> env \<Rightarrow> string \<Rightarrow> model_multi_head \<Rightarrow> lightning_module_default" where
  "pl_module cfg env model_dir model =
     \<lparr>pl_model_dir = model_dir,
      pl_model = model,
      pl_losses = losses cfg,
      pl_train_metrics = train_metrics,
      pl_validation_metrics = val_metrics env,
      pl_test_metrics = val_metrics env,
      pl_optimizers_and_lr_schs = optimizers_and_lr_schs cfg model,
      pl_callbacks = callbacks,
      pl_save_model = False,
      pl_log_unit = ''epoch''\<rparr>"

definition pl_trainer :: "config \<Rightarrow> env \<Rightarrow> string \<Rightarrow> trainer" where
  "pl_trainer cfg env model_dir =
     (let devices = cuda_device_count env
      in \<lparr>tr_default_root_dir = model_dir,
          tr_max_epochs = n_epochs cfg,
          tr_accelerator = ''gpu'',
          tr_devices = devices,
          tr_strategy = (if devices > 1 then ''ddp'' else ''auto''),
          tr_num_sanity_val_steps = 0,
          tr_gradient_clip_val = grad_clip cfg,
          tr_deterministic = False,
          tr_accumulate_grad_batches = accumulate_grad_batches cfg,
          tr_precision = precision cfg\<rparr>)"

text \<open>Lines 242 to 244.\<close>

definition resume_ckpt_path :: "config \<Rightarrow> string option" where
  "resume_ckpt_path cfg = (if resume_training_from cfg \<noteq> None then ckpt_path cfg else None)"

text \<open>Lines 274 to 279.\<close>

definition run_trainer ::
  "config \<Rightarrow> lightning_module_default \<Rightarrow> dataloader \<Rightarrow> dataloader \<Rightarrow> dataloader \<Rightarrow>
   string option \<Rightarrow> world \<Rightarrow> world" where
  "run_trainer cfg pl_mod train_dl val_dl test_dl ckpt w =
     (case test_ckpt cfg of
        Some p \<Rightarrow>
          (let w1 = print (''Test using ckpt: '' @ p) w
           in w1\<lparr>trainer_calls := trainer_calls w1 @ [Validate pl_mod test_dl (Some p)]\<rparr>)
      | None \<Rightarrow> w\<lparr>trainer_calls := trainer_calls w @ [Fit pl_mod train_dl val_dl ckpt]\<rparr>)"

subsection \<open>The function\<close>

text \<open>Everything after the model is built (lines 125 to 279).\<close>

definition train_or_test ::
  "config \<Rightarrow> env \<Rightarrow> string \<Rightarrow> string list \<Rightarrow> model_multi_head \<Rightarrow> world \<Rightarrow> (error + locals) \<times> world" where
  "train_or_test cfg env model_dir tags' model w =
     (case logger_and_seed model_dir w of (rand_gen, w1) \<Rightarrow>
      and_then (read_csv env (csv_path cfg) w1) (\<lambda>df_all w2.
        let train_ds = SegOAI_dataset (dfs cfg df_all Train) (\<not> aug cfg) (resize_to cfg);
            val_ds = SegOAI_dataset (dfs cfg df_all Val) True (resize_to cfg);
            test_ds = SegOAI_dataset (dfs cfg df_all Test) True (resize_to cfg);
            train_dl = train_dataloader cfg train_ds;
            val_dl = eval_dataloader cfg val_ds rand_gen;
            test_dl = eval_dataloader cfg test_ds rand_gen;
            ckpt = resume_ckpt_path cfg;
            pl_mod = pl_module cfg env model_dir model;
            w3 = run_trainer cfg pl_mod train_dl val_dl test_dl ckpt w2
        in (Inr \<lparr>loc_model_dir = model_dir, loc_tags = tags', loc_model = model,
                 loc_train_ds = train_ds, loc_val_ds = val_ds, loc_test_ds = test_ds,
                 loc_train_dl = train_dl, loc_val_dl = val_dl, loc_test_dl = test_dl,
                 loc_losses = losses cfg, loc_train_metrics = train_metrics,
                 loc_val_metrics = val_metrics env,
                 loc_optimizers_and_lr_schs = optimizers_and_lr_schs cfg model,
                 loc_ckpt_path = ckpt, loc_pl_module = pl_mod,
                 loc_pl_trainer = pl_trainer cfg env model_dir\<rparr>, w3)))"

text \<open>Line 38, line 53, lines 54 to 55.\<close>

definition cuda_visible_devices :: "config \<Rightarrow> string" where
  "cuda_visible_devices cfg = str_join '','' (map str_int (cuda_devices cfg))"

definition model_dir_of :: "config \<Rightarrow> string" where
  "model_dir_of cfg = path_join (results_dir cfg) (experiment_name cfg)"

definition make_model_dir :: "string \<Rightarrow> world \<Rightarrow> (error + unit) \<times> world" where
  "make_model_dir model_dir w = (if \<not> isdir w model_dir then makedirs model_dir w else (Inr (), w))"

definition main :: "config \<Rightarrow> env \<Rightarrow> world \<Rightarrow> (error + locals) \<times> world" where
  "main cfg env w0 =
     (let w1 = set_environ ''CUDA_VISIBLE_DEVICES'' (cuda_visible_devices cfg) w0
      in if \<not> count_weights cfg \<le> 1
         then (Inl (AssertionError ''only one weights/ckpt path can be used at a time''), w1)
         else
           let model_dir = model_dir_of cfg
           in and_then (make_model_dir model_dir w1) (\<lambda>_ w2.
                let tags' = tags cfg @ [backbone cfg];
                    w3 = print (''EXPERIMENT : '' @ experiment_name cfg) w2
                in and_then (clearml_block cfg env model_dir tags' w3) (\<lambda>_ w4.
                     and_then (model_block cfg env w4) (\<lambda>model w5.
                       train_or_test cfg env model_dir tags' model w5))))"

section \<open>A concrete run\<close>

text \<open>
  A configuration, an environment and an initial state on which the function can be
  evaluated: two checkpoint files, a CSV with six rows, a UNet3D with two parameters.
\<close>

definition example_cfg :: config where
  "example_cfg =
     \<lparr>results_dir = ''results'', cuda_devices = [0, 1],
      suprem_weights = None, dino_weights = None, resume_training_from = None,
      test_ckpt = None, ckpt_path = Some ''last.ckpt'',
      experiment_name = ''seg'', tags = [''oai''], backbone = ''unet3d'',
      clearml = True, clearml_project_name = ''OAI'', num_classes = 7,
      csv_path = ''folds.csv'', train_folds = [0, 1, 2], val_folds = [3], test_folds = [4],
      aug = True, resize_to = [40, 224, 224], batch_size = 2, n_workers = 4,
      include_background = False, sigmoid = False, softmax = True,
      learning_rate = 1 / 1000, weight_decay = 0, n_epochs = 100,
      grad_clip = 1, accumulate_grad_batches = 1, precision = ''16-mixed''\<rparr>"

definition example_test_cfg :: config where
  "example_test_cfg = example_cfg\<lparr>test_ckpt := Some ''best.ckpt''\<rparr>"

definition example_resume_cfg :: config where
  "example_resume_cfg = example_cfg\<lparr>resume_training_from := Some ''yes''\<rparr>"

definition example_dino_cfg :: config where
  "example_dino_cfg = example_cfg\<lparr>dino_weights := Some ''dino.ckpt''\<rparr>"

definition example_suprem_cfg :: config where
  "example_suprem_cfg = example_cfg\<lparr>suprem_weights := Some ''suprem.pth''\<rparr>"

definition example_tensor :: "int \<Rightarrow> tensor" where
  "example_tensor x = \<lparr>shape = [2], content = [x, x + 1]\<rparr>"

definition example_dino_items :: state_dict where
  "example_dino_items =
     [(''teacher_backbone.conv.weight'', example_tensor 10),
      (''student_backbone.conv.weight'', example_tensor 20),
      (''teacher_backbone.conv.bias'', example_tensor 30),
      (''teacher_head.weight'', example_tensor 40)]"

definition example_suprem_items :: state_dict where
  "example_suprem_items =
     [(''module.backbone.conv.weight'', example_tensor 50),
      (''module.decoder.weight'', example_tensor 60)]"

definition example_rows :: "row list" where
  "example_rows =
     [\<lparr>fold_col = 0, rest_of_row = ''a''\<rparr>, \<lparr>fold_col = 3, rest_of_row = ''b''\<rparr>,
      \<lparr>fold_col = 4, rest_of_row = ''c''\<rparr>, \<lparr>fold_col = 2, rest_of_row = ''d''\<rparr>,
      \<lparr>fold_col = 7, rest_of_row = ''e''\<rparr>, \<lparr>fold_col = 3, rest_of_row = ''f''\<rparr>]"

text \<open>
  An \<^verbatim>\<open>argmax(axis=0)\<close> for the example: on a tensor of shape \<open>[c, n]\<close>, for every
  column the first row that holds its largest value.
\<close>

fun first_max_from :: "int \<Rightarrow> nat \<Rightarrow> nat \<Rightarrow> int list \<Rightarrow> nat" where
  "first_max_from best pos i [] = pos"
| "first_max_from best pos i (x # xs) =
     (if best < x then first_max_from x i (Suc i) xs else first_max_from best pos (Suc i) xs)"

definition first_max :: "int list \<Rightarrow> nat" where
  "first_max xs = (case xs of [] \<Rightarrow> 0 | x # rest \<Rightarrow> first_max_from x 0 1 rest)"

definition example_argmax :: "tensor \<Rightarrow> error + tensor" where
  "example_argmax t =
     (case shape t of
        [c, n] \<Rightarrow>
          if c = 0 then Inl (LibraryError ''argmax of an empty sequence'')
          else Inr \<lparr>shape = [n],
                    content = map (\<lambda>j. int (first_max (map (\<lambda>i. content t ! (i * n + j)) [0..<c]))) [0..<n]\<rparr>
      | _ \<Rightarrow> Inl (LibraryError ''shape''))"

definition example_env :: env where
  "example_env =
     \<lparr>checkpoints =
        [(''dino.ckpt'', [(''epoch'', OtherValue), (''state_dict'', StateDict example_dino_items)]),
         (''suprem.pth'', [(''net'', StateDict example_suprem_items)])],
      csv_files = [(''folds.csv'', example_rows)],
      unet3d_init = [(''conv.weight'', example_tensor 1), (''conv.bias'', example_tensor 2)],
      fresh_task_id = ''4f2a'',
      cuda_device_count = 1,
      argmax_axis0 = example_argmax\<rparr>"

definition example_world :: world where
  "example_world =
     \<lparr>dirs = [''results''], files = [''results/readme.txt''], environ = [(''HOME'', ''/root'')],
      stdout = [], clearml_calls = [], model_calls = [], framework_calls = [],
      trainer_calls = []\<rparr>"

definition example_sample :: sample where
  "example_sample =
     [''model.logits.head_seg'' \<mapsto> \<lparr>shape = [2, 3], content = [1, 5, 2, 4, 5, 0]\<rparr>,
      ''seg'' \<mapsto> \<lparr>shape = [2, 3], content = [0, 1, 0, 1, 0, 1]\<rparr>,
      ''img'' \<mapsto> \<lparr>shape = [1, 3], content = [9, 9, 9]\<rparr>]"

section \<open>Stepping through the function\<close>

lemma and_then_Inl [simp]: "and_then (Inl e, w) f = (Inl e, w)"
  by (simp add: and_then_def)

lemma and_then_Inr [simp]: "and_then (Inr x, w) f = f x w"
  by (simp add: and_then_def)

lemma and_then_cases:
  assumes "and_then r f = (out, w')"
  obtains (fails) e where "r = (Inl e, w')" "out = Inl e"
        | (goes_on) x w1 where "r = (Inr x, w1)" "f x w1 = (out, w')"
  using assms by (auto simp: and_then_def split: prod.splits sum.splits)

lemma main_assert:
  "\<not> count_weights cfg \<le> 1 \<Longrightarrow> main cfg env w =
     (Inl (AssertionError ''only one weights/ckpt path can be used at a time''),
      set_environ ''CUDA_VISIBLE_DEVICES'' (cuda_visible_devices cfg) w)"
  by (simp add: main_def)

lemma main_cases:
  assumes "main cfg env w0 = (out, w')"
  obtains
    (asserts) "\<not> count_weights cfg \<le> 1"
      "out = Inl (AssertionError ''only one weights/ckpt path can be used at a time'')"
      "w' = set_environ ''CUDA_VISIBLE_DEVICES'' (cuda_visible_devices cfg) w0"
  | (no_dir) e where "count_weights cfg \<le> 1" "out = Inl e"
      "make_model_dir (model_dir_of cfg)
         (set_environ ''CUDA_VISIBLE_DEVICES'' (cuda_visible_devices cfg) w0) = (Inl e, w')"
  | (no_clearml) e w2 where "count_weights cfg \<le> 1" "out = Inl e"
      "make_model_dir (model_dir_of cfg)
         (set_environ ''CUDA_VISIBLE_DEVICES'' (cuda_visible_devices cfg) w0) = (Inr (), w2)"
      "clearml_block cfg env (model_dir_of cfg) (tags cfg @ [backbone cfg])
         (print (''EXPERIMENT : '' @ experiment_name cfg) w2) = (Inl e, w')"
  | (no_model) e w2 w4 where "count_weights cfg \<le> 1" "out = Inl e"
      "make_model_dir (model_dir_of cfg)
         (set_environ ''CUDA_VISIBLE_DEVICES'' (cuda_visible_devices cfg) w0) = (Inr (), w2)"
      "clearml_block cfg env (model_dir_of cfg) (tags cfg @ [backbone cfg])
         (print (''EXPERIMENT : '' @ experiment_name cfg) w2) = (Inr (), w4)"
      "model_block cfg env w4 = (Inl e, w')"
  | (built) w2 w4 model w5 where "count_weights cfg \<le> 1"
      "make_model_dir (model_dir_of cfg)
         (set_environ ''CUDA_VISIBLE_DEVICES'' (cuda_visible_devices cfg) w0) = (Inr (), w2)"
      "clearml_block cfg env (model_dir_of cfg) (tags cfg @ [backbone cfg])
         (print (''EXPERIMENT : '' @ experiment_name cfg) w2) = (Inr (), w4)"
      "model_block cfg env w4 = (Inr model, w5)"
      "train_or_test cfg env (model_dir_of cfg) (tags cfg @ [backbone cfg]) model w5 = (out, w')"
proof (cases "count_weights cfg \<le> 1")
  case False
  with assms asserts show ?thesis by (simp add: main_assert)
next
  case True
  let ?w1 = "set_environ ''CUDA_VISIBLE_DEVICES'' (cuda_visible_devices cfg) w0"
  from assms True have m:
    "and_then (make_model_dir (model_dir_of cfg) ?w1) (\<lambda>_ w2.
       and_then (clearml_block cfg env (model_dir_of cfg) (tags cfg @ [backbone cfg])
                   (print (''EXPERIMENT : '' @ experiment_name cfg) w2)) (\<lambda>_ w4.
         and_then (model_block cfg env w4) (\<lambda>model w5.
           train_or_test cfg env (model_dir_of cfg) (tags cfg @ [backbone cfg]) model w5)))
     = (out, w')"
    by (simp add: main_def Let_def)
  from m show ?thesis
  proof (cases rule: and_then_cases)
    case (fails e)
    with True no_dir show ?thesis by blast
  next
    case (goes_on u w2)
    from goes_on(2) show ?thesis
    proof (cases rule: and_then_cases)
      case (fails e)
      with True goes_on(1) no_clearml show ?thesis by auto
    next
      case c: (goes_on u' w4)
      from c(2) show ?thesis
      proof (cases rule: and_then_cases)
        case (fails e)
        with True goes_on(1) c(1) no_model show ?thesis by auto
      next
        case b: (goes_on model w5)
        with True goes_on(1) c(1) built show ?thesis by auto
      qed
    qed
  qed
qed

lemma set_environ_fields [simp]:
  "dirs (set_environ k v w) = dirs w" "files (set_environ k v w) = files w"
  "stdout (set_environ k v w) = stdout w" "clearml_calls (set_environ k v w) = clearml_calls w"
  "model_calls (set_environ k v w) = model_calls w"
  "framework_calls (set_environ k v w) = framework_calls w"
  "trainer_calls (set_environ k v w) = trainer_calls w"
  "environ (set_environ k v w) = AList.update k v (environ w)"
  by (simp_all add: set_environ_def)

lemma print_fields [simp]:
  "dirs (print l w) = dirs w" "files (print l w) = files w"
  "environ (print l w) = environ w" "clearml_calls (print l w) = clearml_calls w"
  "model_calls (print l w) = model_calls w"
  "framework_calls (print l w) = framework_calls w"
  "trainer_calls (print l w) = trainer_calls w"
  "stdout (print l w) = stdout w @ [l]"
  by (simp_all add: print_def)

lemma make_model_dir_frame:
  assumes "make_model_dir d w = (r, w')"
  shows "files w' = files w \<and> environ w' = environ w \<and> stdout w' = stdout w \<and> clearml_calls w' = clearml_calls w \<and> model_calls w' = model_calls w \<and> framework_calls w' = framework_calls w \<and> trainer_calls w' = trainer_calls w"
  using assms by (auto simp: make_model_dir_def makedirs_def split: if_splits)

lemma clearml_block_frame:
  assumes "clearml_block cfg env d t w = (r, w')"
  shows "dirs w' = dirs w \<and> environ w' = environ w \<and> stdout w' = stdout w \<and> model_calls w' = model_calls w \<and> framework_calls w' = framework_calls w \<and> trainer_calls w' = trainer_calls w"
  using assms
  by (auto simp: clearml_block_def open_w_def Let_def split: if_splits list.splits)

lemma torch_load_frame:
  assumes "torch_load env p w = (r, w')"
  shows "dirs w' = dirs w \<and> files w' = files w \<and> environ w' = environ w \<and> stdout w' = stdout w \<and> clearml_calls w' = clearml_calls w \<and> framework_calls w' = framework_calls w \<and> trainer_calls w' = trainer_calls w"
  using assms by (auto simp: torch_load_def Let_def split: option.splits)

lemma select_state_dict_frame:
  assumes "select_state_dict cfg env b w = (r, w')"
  shows "dirs w' = dirs w \<and> files w' = files w \<and> environ w' = environ w \<and> clearml_calls w' = clearml_calls w \<and> framework_calls w' = framework_calls w \<and> trainer_calls w' = trainer_calls w"
  using assms
  by (auto simp: select_state_dict_def torch_load_def Let_def and_then_def
           split: option.splits sum.splits)

lemma backbone_block_frame:
  assumes "backbone_block cfg env w = (r, w')"
  shows "dirs w' = dirs w \<and> files w' = files w \<and> environ w' = environ w \<and> clearml_calls w' = clearml_calls w \<and> framework_calls w' = framework_calls w \<and> trainer_calls w' = trainer_calls w"
  using assms
  by (auto simp: backbone_block_def Let_def 
           elim!: and_then_cases dest!: select_state_dict_frame split: if_splits sum.splits)

lemma model_block_frame:
  assumes "model_block cfg env w = (r, w')"
  shows "dirs w' = dirs w \<and> files w' = files w \<and> environ w' = environ w \<and> clearml_calls w' = clearml_calls w \<and> framework_calls w' = framework_calls w \<and> trainer_calls w' = trainer_calls w"
  using assms
  by (auto simp: model_block_def Let_def
           elim!: and_then_cases dest!: backbone_block_frame split: option.splits)

lemma train_or_test_frame:
  assumes "train_or_test cfg env d t m w = (r, w')"
  shows "dirs w' = dirs w \<and> files w' = files w \<and> clearml_calls w' = clearml_calls w \<and> model_calls w' = model_calls w"
  using assms
  by (auto simp: train_or_test_def logger_and_seed_def read_csv_def run_trainer_def Let_def
           elim!: and_then_cases split: option.splits)

lemma train_or_test_cases:
  assumes "train_or_test cfg env d t m w = (out, w')"
  obtains
    (no_csv) "map_of (csv_files env) (csv_path cfg) = None"
      "out = Inl (FileNotFoundError (csv_path cfg))" "trainer_calls w' = trainer_calls w"
  | (ran) df_all r where "map_of (csv_files env) (csv_path cfg) = Some df_all" "out = Inr r"
      "loc_model_dir r = d" "loc_tags r = t" "loc_model r = m"
      "loc_train_ds r = SegOAI_dataset (dfs cfg df_all Train) (\<not> aug cfg) (resize_to cfg)"
      "loc_val_ds r = SegOAI_dataset (dfs cfg df_all Val) True (resize_to cfg)"
      "loc_test_ds r = SegOAI_dataset (dfs cfg df_all Test) True (resize_to cfg)"
      "loc_train_dl r = train_dataloader cfg (loc_train_ds r)"
      "loc_val_dl r = eval_dataloader cfg (loc_val_ds r) 1234"
      "loc_test_dl r = eval_dataloader cfg (loc_test_ds r) 1234"
      "loc_losses r = losses cfg" "loc_train_metrics r = train_metrics"
      "loc_val_metrics r = val_metrics env"
      "loc_optimizers_and_lr_schs r = optimizers_and_lr_schs cfg m"
      "loc_ckpt_path r = resume_ckpt_path cfg"
      "loc_pl_module r = pl_module cfg env d m"
      "loc_pl_trainer r = pl_trainer cfg env d"
      "trainer_calls w' = trainer_calls w @
         [case test_ckpt cfg of
            Some p \<Rightarrow> Validate (loc_pl_module r) (loc_test_dl r) (Some p)
          | None \<Rightarrow> Fit (loc_pl_module r) (loc_train_dl r) (loc_val_dl r) (loc_ckpt_path r)]"
proof (cases "map_of (csv_files env) (csv_path cfg)")
  case None
  with assms no_csv show ?thesis
    by (auto simp: train_or_test_def logger_and_seed_def read_csv_def Let_def)
next
  case (Some df_all)
  let ?r = "\<lparr>loc_model_dir = d, loc_tags = t, loc_model = m,
       loc_train_ds = SegOAI_dataset (dfs cfg df_all Train) (\<not> aug cfg) (resize_to cfg),
       loc_val_ds = SegOAI_dataset (dfs cfg df_all Val) True (resize_to cfg),
       loc_test_ds = SegOAI_dataset (dfs cfg df_all Test) True (resize_to cfg),
       loc_train_dl = train_dataloader cfg
          (SegOAI_dataset (dfs cfg df_all Train) (\<not> aug cfg) (resize_to cfg)),
       loc_val_dl = eval_dataloader cfg (SegOAI_dataset (dfs cfg df_all Val) True (resize_to cfg)) 1234,
       loc_test_dl = eval_dataloader cfg (SegOAI_dataset (dfs cfg df_all Test) True (resize_to cfg)) 1234,
       loc_losses = losses cfg, loc_train_metrics = train_metrics,
       loc_val_metrics = val_metrics env,
       loc_optimizers_and_lr_schs = optimizers_and_lr_schs cfg m,
       loc_ckpt_path = resume_ckpt_path cfg, loc_pl_module = pl_module cfg env d m,
       loc_pl_trainer = pl_trainer cfg env d\<rparr>"
  from Some assms have "out = Inr ?r"
    and "trainer_calls w' = trainer_calls w @
         [case test_ckpt cfg of
            Some p \<Rightarrow> Validate (loc_pl_module ?r) (loc_test_dl ?r) (Some p)
          | None \<Rightarrow> Fit (loc_pl_module ?r) (loc_train_dl ?r) (loc_val_dl ?r) (loc_ckpt_path ?r)]"
    by (auto simp: train_or_test_def logger_and_seed_def read_csv_def run_trainer_def Let_def
             split: option.splits)
  with Some show ?thesis
    by (intro ran[of df_all ?r]) simp_all
qed

text \<open>A run that reaches the end of the function has gone through every stage.\<close>

lemma main_completes:
  assumes "main cfg env w0 = (Inr r, w')"
  obtains w4 w5 where
    "count_weights cfg \<le> 1"
    "model_block cfg env w4 = (Inr (loc_model r), w5)"
    "train_or_test cfg env (model_dir_of cfg) (tags cfg @ [backbone cfg]) (loc_model r) w5 = (Inr r, w')"
    "trainer_calls w5 = trainer_calls w0"
    "model_calls w4 = model_calls w0"
    "model_calls w' = model_calls w5"
  using assms
proof (cases rule: main_cases)
  case (built w2 w4 model w5)
  from built(5) have "loc_model r = model"
    by (cases rule: train_or_test_cases) auto
  moreover have "trainer_calls w5 = trainer_calls w0" "model_calls w4 = model_calls w0"
    "model_calls w' = model_calls w5"
    using make_model_dir_frame[OF built(2)] clearml_block_frame[OF built(3)]
      model_block_frame[OF built(4)] train_or_test_frame[OF built(5)]
    by simp_all
  ultimately show ?thesis using built that by blast
qed simp_all

lemma main_trainer_calls:
  assumes "main cfg env w = (out, w')"
  shows "\<exists>calls. trainer_calls w' = trainer_calls w @ calls \<and>
     (case out of
        Inl e \<Rightarrow> calls = []
      | Inr r \<Rightarrow>
          (case test_ckpt cfg of
             Some p \<Rightarrow> calls = [Validate (loc_pl_module r) (loc_test_dl r) (Some p)]
           | None \<Rightarrow> calls = [Fit (loc_pl_module r) (loc_train_dl r) (loc_val_dl r) (loc_ckpt_path r)]))"
  using assms
proof (cases rule: main_cases)
  case asserts
  then show ?thesis by simp
next
  case (no_dir e)
  then show ?thesis using make_model_dir_frame[OF no_dir(3)] by simp
next
  case (no_clearml e w2)
  then show ?thesis
    using make_model_dir_frame[OF no_clearml(3)] clearml_block_frame[OF no_clearml(4)] by simp
next
  case (no_model e w2 w4)
  then show ?thesis
    using make_model_dir_frame[OF no_model(3)] clearml_block_frame[OF no_model(4)]
      model_block_frame[OF no_model(5)] by simp
next
  case (built w2 w4 model w5)
  have eq: "trainer_calls w5 = trainer_calls w"
    using make_model_dir_frame[OF built(2)] clearml_block_frame[OF built(3)]
      model_block_frame[OF built(4)] by simp
  from built(5) show ?thesis
  proof (cases rule: train_or_test_cases)
    case no_csv
    with eq show ?thesis by simp
  next
    case (ran df_all r)
    with eq show ?thesis by (simp split: option.splits)
  qed
qed

lemma main_locals:
  assumes "main cfg env w = (Inr r, w')"
  obtains df_all where
      "map_of (csv_files env) (csv_path cfg) = Some df_all"
      "loc_model_dir r = model_dir_of cfg" "loc_tags r = tags cfg @ [backbone cfg]"
      "loc_train_ds r = SegOAI_dataset (dfs cfg df_all Train) (\<not> aug cfg) (resize_to cfg)"
      "loc_val_ds r = SegOAI_dataset (dfs cfg df_all Val) True (resize_to cfg)"
      "loc_test_ds r = SegOAI_dataset (dfs cfg df_all Test) True (resize_to cfg)"
      "loc_train_dl r = train_dataloader cfg (loc_train_ds r)"
      "loc_val_dl r = eval_dataloader cfg (loc_val_ds r) 1234"
      "loc_test_dl r = eval_dataloader cfg (loc_test_ds r) 1234"
      "loc_losses r = losses cfg" "loc_train_metrics r = train_metrics"
      "loc_val_metrics r = val_metrics env"
      "loc_optimizers_and_lr_schs r = optimizers_and_lr_schs cfg (loc_model r)"
      "loc_ckpt_path r = resume_ckpt_path cfg"
      "loc_pl_module r = pl_module cfg env (model_dir_of cfg) (loc_model r)"
      "loc_pl_trainer r = pl_trainer cfg env (model_dir_of cfg)"
  using assms
proof (cases rule: main_completes)
  case (1 w4 w5)
  from 1(3) show ?thesis
  proof (cases rule: train_or_test_cases)
    case (ran df r')
    then show ?thesis using that[of df] by simp
  qed simp
qed

subsection \<open>The value of \<^verbatim>\<open>resume_training_from\<close> is not used\<close>

text \<open>
  The configuration as a whole is handed to ClearML (\<^verbatim>\<open>task.connect(cfg)\<close>); apart from
  that record of the call, a run reads \<^verbatim>\<open>cfg.resume_training_from\<close> only to compare it
  with \<^verbatim>\<open>None\<close>.
\<close>

lemma main_unfold:
  "count_weights cfg \<le> 1 \<Longrightarrow> main cfg env w0 =
     and_then (make_model_dir (model_dir_of cfg)
                 (set_environ ''CUDA_VISIBLE_DEVICES'' (cuda_visible_devices cfg) w0)) (\<lambda>_ w2.
       and_then (clearml_block cfg env (model_dir_of cfg) (tags cfg @ [backbone cfg])
                   (print (''EXPERIMENT : '' @ experiment_name cfg) w2)) (\<lambda>_ w4.
         and_then (model_block cfg env w4) (\<lambda>model w5.
           train_or_test cfg env (model_dir_of cfg) (tags cfg @ [backbone cfg]) model w5)))"
  by (simp add: main_def Let_def)

lemma glob_cmlid_clearml_calls [simp]:
  "glob_cmlid (w\<lparr>clearml_calls := cs\<rparr>) d = glob_cmlid w d"
  by (simp add: glob_cmlid_def)

lemma world_but_clearml_calls:
  assumes "w\<lparr>clearml_calls := []\<rparr> = v\<lparr>clearml_calls := []\<rparr>"
  shows "w = v\<lparr>clearml_calls := clearml_calls w\<rparr>"
  using assms by (cases w, cases v) simp

lemma clearml_block_resume_eq:
  "fst (clearml_block (cfg\<lparr>resume_training_from := x\<rparr>) env d t w) =
     fst (clearml_block cfg env d t w) \<and>
   (snd (clearml_block (cfg\<lparr>resume_training_from := x\<rparr>) env d t w))\<lparr>clearml_calls := []\<rparr> =
     (snd (clearml_block cfg env d t w))\<lparr>clearml_calls := []\<rparr>"
  by (simp add: clearml_block_def open_w_def glob_cmlid_def Let_def split: list.splits)

lemma clearml_block_resume:
  assumes "clearml_block cfg env d t w = (r, w1)"
  shows "\<exists>cs. clearml_block (cfg\<lparr>resume_training_from := x\<rparr>) env d t w =
           (r, w1\<lparr>clearml_calls := cs\<rparr>)"
proof -
  obtain r' w1' where c: "clearml_block (cfg\<lparr>resume_training_from := x\<rparr>) env d t w = (r', w1')"
    by (cases "clearml_block (cfg\<lparr>resume_training_from := x\<rparr>) env d t w")
  from clearml_block_resume_eq[where cfg=cfg and x=x and env=env and d=d and t=t and w=w] assms c
  have "r' = r" and "w1'\<lparr>clearml_calls := []\<rparr> = w1\<lparr>clearml_calls := []\<rparr>" by simp_all
  from this(1) world_but_clearml_calls[OF this(2)] c show ?thesis by auto
qed

lemma torch_load_clearml_calls:
  assumes "torch_load env p w = (r, w1)"
  shows "torch_load env p (w\<lparr>clearml_calls := cs\<rparr>) = (r, w1\<lparr>clearml_calls := cs\<rparr>)"
  using assms by (auto simp: torch_load_def Let_def split: option.splits)

lemma select_state_dict_clearml_calls:
  assumes "select_state_dict cfg env b w = (r, w1)"
  shows "select_state_dict cfg env b (w\<lparr>clearml_calls := cs\<rparr>) = (r, w1\<lparr>clearml_calls := cs\<rparr>)"
proof (cases "dino_weights cfg")
  case (Some p)
  have pr: "print l (w\<lparr>clearml_calls := cs\<rparr>) = (print l w)\<lparr>clearml_calls := cs\<rparr>" for l
    by (simp add: print_def)
  obtain r2 w2 where t: "torch_load env p (print (''LOADING ckpt from '' @ p) w) = (r2, w2)"
    by (cases "torch_load env p (print (''LOADING ckpt from '' @ p) w)")
  from assms Some t torch_load_clearml_calls[OF t, of cs] show ?thesis
    by (cases r2) (auto simp: select_state_dict_def pr split: sum.splits)
next
  case None
  show ?thesis
  proof (cases "suprem_weights cfg")
    case (Some p)
    obtain r2 w2 where t: "torch_load env p w = (r2, w2)"
      by (cases "torch_load env p w")
    from assms None Some t torch_load_clearml_calls[OF t, of cs] show ?thesis
      by (cases r2) (auto simp: select_state_dict_def split: sum.splits)
  next
    case n: None
    with assms None show ?thesis by (auto simp: select_state_dict_def)
  qed
qed

lemma backbone_block_clearml_calls:
  assumes "backbone_block cfg env w = (r, w1)"
  shows "backbone_block cfg env (w\<lparr>clearml_calls := cs\<rparr>) = (r, w1\<lparr>clearml_calls := cs\<rparr>)"
proof (cases "backbone cfg = ''unet3d''")
  case False
  with assms show ?thesis by (auto simp: backbone_block_def)
next
  case True
  let ?b0 = "\<lparr>for_cls = False, weights = unet3d_init env\<rparr>"
  let ?w1 = "w\<lparr>model_calls := model_calls w @ [NewUNet3D False]\<rparr>"
  obtain r2 w2 where s: "select_state_dict cfg env ?b0 ?w1 = (r2, w2)"
    by (cases "select_state_dict cfg env ?b0 ?w1")
  have comm: "w\<lparr>clearml_calls := cs, model_calls := model_calls w @ [NewUNet3D False]\<rparr> =
              ?w1\<lparr>clearml_calls := cs\<rparr>" by simp
  from assms True s select_state_dict_clearml_calls[OF s, of cs] show ?thesis
    by (cases r2) (auto simp: backbone_block_def Let_def comm split: sum.splits)
qed

lemma model_block_clearml_calls:
  assumes "model_block cfg env w = (r, w1)"
  shows "model_block cfg env (w\<lparr>clearml_calls := cs\<rparr>) = (r, w1\<lparr>clearml_calls := cs\<rparr>)"
proof -
  obtain r2 w2 where b: "backbone_block cfg env w = (r2, w2)"
    by (cases "backbone_block cfg env w")
  from assms b backbone_block_clearml_calls[OF b, of cs] show ?thesis
    by (cases r2) (auto simp: model_block_def Let_def split: option.splits)
qed

lemma train_or_test_clearml_calls:
  assumes "train_or_test cfg env d t m w = (r, w1)"
  shows "train_or_test cfg env d t m (w\<lparr>clearml_calls := cs\<rparr>) = (r, w1\<lparr>clearml_calls := cs\<rparr>)"
  using assms
  by (auto simp: train_or_test_def logger_and_seed_def read_csv_def run_trainer_def
        print_def set_environ_def and_then_def Let_def split: option.splits)

lemma model_block_resume:
  "model_block (cfg\<lparr>resume_training_from := x\<rparr>) env w = model_block cfg env w"
  by (simp add: model_block_def backbone_block_def select_state_dict_def Let_def
        cong: option.case_cong if_cong)

lemma train_or_test_resume:
  assumes "resume_training_from cfg \<noteq> None"
  shows "train_or_test (cfg\<lparr>resume_training_from := Some q\<rparr>) env d t m w =
         train_or_test cfg env d t m w"
  using assms
  by (simp add: train_or_test_def resume_ckpt_path_def pl_module_def pl_trainer_def losses_def
        optimizers_and_lr_schs_def dfs_def train_dataloader_def eval_dataloader_def
        run_trainer_def)

lemma count_weights_resume:
  "resume_training_from cfg \<noteq> None \<Longrightarrow>
   count_weights (cfg\<lparr>resume_training_from := Some q\<rparr>) = count_weights cfg"
  by (simp add: count_weights_def)

lemma main_resume_value_irrelevant:
  assumes "main cfg env w = (out, w')" and res: "resume_training_from cfg \<noteq> None"
  shows "\<exists>cs. main (cfg\<lparr>resume_training_from := Some q\<rparr>) env w =
           (out, w'\<lparr>clearml_calls := cs\<rparr>)"
  using assms(1)
proof (cases rule: main_cases)
  case asserts
  with res have "main (cfg\<lparr>resume_training_from := Some q\<rparr>) env w =
      (out, w'\<lparr>clearml_calls := clearml_calls w'\<rparr>)"
    by (simp add: main_def count_weights_resume cuda_visible_devices_def)
  then show ?thesis by blast
next
  case (no_dir e)
  with res have "main (cfg\<lparr>resume_training_from := Some q\<rparr>) env w =
      (out, w'\<lparr>clearml_calls := clearml_calls w'\<rparr>)"
    by (simp add: main_unfold count_weights_resume cuda_visible_devices_def model_dir_of_def)
  then show ?thesis by blast
next
  case (no_clearml e w2)
  from clearml_block_resume[OF no_clearml(4)] obtain cs where
    "clearml_block (cfg\<lparr>resume_training_from := Some q\<rparr>) env (model_dir_of cfg)
       (tags cfg @ [backbone cfg]) (print (''EXPERIMENT : '' @ experiment_name cfg) w2) =
     (Inl e, w'\<lparr>clearml_calls := cs\<rparr>)" by blast
  with no_clearml res have "main (cfg\<lparr>resume_training_from := Some q\<rparr>) env w =
      (out, w'\<lparr>clearml_calls := cs\<rparr>)"
    by (simp add: main_unfold count_weights_resume cuda_visible_devices_def model_dir_of_def)
  then show ?thesis by blast
next
  case (no_model e w2 w4)
  from clearml_block_resume[OF no_model(4)] obtain cs where
    "clearml_block (cfg\<lparr>resume_training_from := Some q\<rparr>) env (model_dir_of cfg)
       (tags cfg @ [backbone cfg]) (print (''EXPERIMENT : '' @ experiment_name cfg) w2) =
     (Inr (), w4\<lparr>clearml_calls := cs\<rparr>)" by blast
  with no_model res model_block_clearml_calls[OF no_model(5), of cs]
  have "main (cfg\<lparr>resume_training_from := Some q\<rparr>) env w =
      (out, w'\<lparr>clearml_calls := cs\<rparr>)"
    by (simp add: main_unfold count_weights_resume cuda_visible_devices_def model_dir_of_def
          model_block_resume)
  then show ?thesis by blast
next
  case (built w2 w4 model w5)
  from clearml_block_resume[OF built(3)] obtain cs where
    "clearml_block (cfg\<lparr>resume_training_from := Some q\<rparr>) env (model_dir_of cfg)
       (tags cfg @ [backbone cfg]) (print (''EXPERIMENT : '' @ experiment_name cfg) w2) =
     (Inr (), w4\<lparr>clearml_calls := cs\<rparr>)" by blast
  with built res model_block_clearml_calls[OF built(4), of cs]
    train_or_test_clearml_calls[OF built(5), of cs]
  have "main (cfg\<lparr>resume_training_from := Some q\<rparr>) env w =
      (out, w'\<lparr>clearml_calls := cs\<rparr>)"
    by (simp add: main_unfold count_weights_resume cuda_visible_devices_def model_dir_of_def
          model_block_resume train_or_test_resume)
  then show ?thesis by blast
qed

subsection \<open>Evaluating the concrete run\<close>

lemmas example_defs =
  example_cfg_def example_env_def example_world_def example_rows_def
  example_dino_items_def example_suprem_items_def example_tensor_def

lemmas run_defs =
  main_def count_weights_def cuda_visible_devices_def model_dir_of_def make_model_dir_def
  isdir_def makedirs_def path_join_def clearml_block_def glob_cmlid_def is_marker_name_def
  open_w_def model_block_def backbone_block_def select_state_dict_def torch_load_def
  ckpt_items_def load_state_dict_def train_or_test_def logger_and_seed_def read_csv_def
  run_trainer_def set_environ_def print_def

lemma example_completes:
  "\<exists>r w'. main example_cfg example_env example_world = (Inr r, w')"
  by (simp add: run_defs example_defs Let_def suffix_to_prefix)

lemma example_test_completes:
  "\<exists>r w'. main example_test_cfg example_env example_world = (Inr r, w')"
  by (simp add: run_defs example_defs example_test_cfg_def Let_def suffix_to_prefix)

lemma example_resume_completes:
  "\<exists>r w'. main example_resume_cfg example_env example_world = (Inr r, w')"
  by (simp add: run_defs example_defs example_resume_cfg_def Let_def suffix_to_prefix)

section \<open>Properties of the entry point\<close>

text \<open>
  C3. When two or more of \<^verbatim>\<open>suprem_weights\<close>, \<^verbatim>\<open>dino_weights\<close>, \<^verbatim>\<open>resume_training_from\<close>
  and \<^verbatim>\<open>test_ckpt\<close> are not \<^verbatim>\<open>None\<close>, the function raises the assertion error
  "only one weights/ckpt path can be used at a time"; at that point no directory has been
  created, no file written, no model built, and no framework called: only the process
  environment has changed.
\<close>

theorem main_asserts_single_weights_path:
  assumes "2 \<le> count_weights cfg"
  shows "\<exists>w'. main cfg env w =
           (Inl (AssertionError ''only one weights/ckpt path can be used at a time''), w') \<and>
         dirs w' = dirs w \<and> files w' = files w \<and> model_calls w' = model_calls w \<and>
         clearml_calls w' = clearml_calls w \<and> framework_calls w' = framework_calls w \<and>
         trainer_calls w' = trainer_calls w \<and> stdout w' = stdout w"
proof -
  from assms have "\<not> count_weights cfg \<le> 1" by simp
  then show ?thesis by (simp add: main_assert)
qed

theorem main_asserts_single_weights_path_witness:
  "2 \<le> count_weights (example_cfg\<lparr>dino_weights := Some ''dino.ckpt'', test_ckpt := Some ''best.ckpt''\<rparr>) \<and>
   (\<exists>w'. main (example_cfg\<lparr>dino_weights := Some ''dino.ckpt'', test_ckpt := Some ''best.ckpt''\<rparr>)
            example_env example_world =
           (Inl (AssertionError ''only one weights/ckpt path can be used at a time''), w') \<and>
         dirs w' = [''results''] \<and> files w' = [''results/readme.txt''] \<and> model_calls w' = [])"
proof -
  have h: "2 \<le> count_weights (example_cfg\<lparr>dino_weights := Some ''dino.ckpt'', test_ckpt := Some ''best.ckpt''\<rparr>)"
    by (simp add: count_weights_def example_cfg_def)
  from main_asserts_single_weights_path[OF h, of example_env example_world] h
  show ?thesis by (auto simp: example_world_def)
qed

text \<open>
  C2. A run calls the trainer at most once, and exactly once when it reaches the end of the
  function: with \<^verbatim>\<open>cfg.test_ckpt\<close> set, the one call is \<^verbatim>\<open>validate\<close> on the module and
  the test data loader with \<^verbatim>\<open>ckpt_path\<close> equal to \<^verbatim>\<open>cfg.test_ckpt\<close>, and \<^verbatim>\<open>fit\<close> is not
  called; otherwise the one call is \<^verbatim>\<open>fit\<close> on the module, the train and the validation
  data loader, and \<^verbatim>\<open>validate\<close> is not called. A run that fails earlier calls neither.
\<close>

theorem main_validates_or_fits:
  assumes "main cfg env w = (out, w')"
  shows "\<exists>calls. trainer_calls w' = trainer_calls w @ calls \<and>
     (case out of
        Inl e \<Rightarrow> calls = []
      | Inr r \<Rightarrow>
          (case test_ckpt cfg of
             Some p \<Rightarrow> calls = [Validate (loc_pl_module r) (loc_test_dl r) (Some p)]
           | None \<Rightarrow> calls = [Fit (loc_pl_module r) (loc_train_dl r) (loc_val_dl r) (loc_ckpt_path r)]))"
  using assms by (rule main_trainer_calls)

theorem main_validates_or_fits_witness:
  "(\<exists>r w'. main example_cfg example_env example_world = (Inr r, w') \<and>
      trainer_calls w' = [Fit (loc_pl_module r) (loc_train_dl r) (loc_val_dl r) (loc_ckpt_path r)]) \<and>
   (\<exists>r w'. main example_test_cfg example_env example_world = (Inr r, w') \<and>
      trainer_calls w' = [Validate (loc_pl_module r) (loc_test_dl r) (Some ''best.ckpt'')])"
proof
  from example_completes obtain r w' where
    run: "main example_cfg example_env example_world = (Inr r, w')" by blast
  from main_validates_or_fits[OF run]
  have "trainer_calls w' = [Fit (loc_pl_module r) (loc_train_dl r) (loc_val_dl r) (loc_ckpt_path r)]"
    by (simp add: example_cfg_def example_world_def)
  with run show "\<exists>r w'. main example_cfg example_env example_world = (Inr r, w') \<and>
      trainer_calls w' = [Fit (loc_pl_module r) (loc_train_dl r) (loc_val_dl r) (loc_ckpt_path r)]"
    by blast
next
  from example_test_completes obtain r w' where
    run: "main example_test_cfg example_env example_world = (Inr r, w')" by blast
  from main_validates_or_fits[OF run]
  have "trainer_calls w' = [Validate (loc_pl_module r) (loc_test_dl r) (Some ''best.ckpt'')]"
    by (simp add: example_test_cfg_def example_cfg_def example_world_def)
  with run show "\<exists>r w'. main example_test_cfg example_env example_world = (Inr r, w') \<and>
      trainer_calls w' = [Validate (loc_pl_module r) (loc_test_dl r) (Some ''best.ckpt'')]"
    by blast
qed

text \<open>
  C8. The \<^verbatim>\<open>losses\<close> dictionary has exactly one entry, under the key
  \<^verbatim>\<open>generalized_dice_loss\<close>: a \<^verbatim>\<open>LossDefault\<close> of weight 1.0 on the prediction key
  \<^verbatim>\<open>model.logits.head_seg\<close> and the target key \<^verbatim>\<open>seg\<close>, wrapping a \<^verbatim>\<open>GeneralizedDiceLoss\<close>
  configured by \<^verbatim>\<open>cfg.include_background\<close>, \<^verbatim>\<open>cfg.sigmoid\<close> and \<^verbatim>\<open>cfg.softmax\<close>; it is the
  dictionary the Lightning module receives.
\<close>

theorem losses_is_generalized_dice:
  assumes "main cfg env w = (Inr r, w')"
  shows "loc_losses r =
           [(''generalized_dice_loss'',
             \<lparr>loss_pred = ''model.logits.head_seg'', loss_target = ''seg'',
              loss_callable = \<lparr>gdl_include_background = include_background cfg,
                               gdl_sigmoid = sigmoid cfg, gdl_softmax = softmax cfg\<rparr>,
              loss_weight = 1\<rparr>)] \<and>
         pl_losses (loc_pl_module r) = loc_losses r"
  using assms
  by (cases rule: main_locals) (simp add: losses_def pl_module_def)

theorem losses_is_generalized_dice_witness:
  "\<exists>r w'. main example_cfg example_env example_world = (Inr r, w') \<and>
     loc_losses r =
       [(''generalized_dice_loss'',
         \<lparr>loss_pred = ''model.logits.head_seg'', loss_target = ''seg'',
          loss_callable = \<lparr>gdl_include_background = False, gdl_sigmoid = False, gdl_softmax = True\<rparr>,
          loss_weight = 1\<rparr>)]"
proof -
  from example_completes obtain r w' where
    run: "main example_cfg example_env example_world = (Inr r, w')" by blast
  from losses_is_generalized_dice[OF run] run show ?thesis
    by (auto simp: example_cfg_def)
qed

text \<open>
  C10. The optimizer is Adam over the parameters of the model, with learning rate
  \<^verbatim>\<open>cfg.learning_rate\<close> and weight decay \<^verbatim>\<open>cfg.weight_decay\<close>; exactly one scheduler is
  attached to it, a \<^verbatim>\<open>CosineAnnealingLR\<close> with \<^verbatim>\<open>T_max\<close> equal to \<^verbatim>\<open>cfg.n_epochs\<close>; the two
  are passed together to the Lightning module as its \<^verbatim>\<open>optimizers_and_lr_schs\<close>.
\<close>

theorem optimizer_is_adam_with_cosine_annealing:
  assumes "main cfg env w = (Inr r, w')"
  shows "loc_optimizers_and_lr_schs r =
           [(''optimizer'',
             Optimizer \<lparr>adam_params_of = loc_model r, adam_lr = learning_rate cfg,
                        adam_weight_decay = weight_decay cfg\<rparr>),
            (''lr_scheduler'',
             LrSchConfig
               [(''scheduler'',
                 \<lparr>sched_optimizer = \<lparr>adam_params_of = loc_model r, adam_lr = learning_rate cfg,
                                      adam_weight_decay = weight_decay cfg\<rparr>,
                  sched_T_max = n_epochs cfg\<rparr>)])] \<and>
         pl_optimizers_and_lr_schs (loc_pl_module r) = loc_optimizers_and_lr_schs r \<and>
         pl_model (loc_pl_module r) = loc_model r"
  using assms
  by (cases rule: main_locals)
     (simp add: optimizers_and_lr_schs_def pl_module_def dict_of_items_def Let_def)

theorem optimizer_is_adam_with_cosine_annealing_witness:
  "\<exists>r w'. main example_cfg example_env example_world = (Inr r, w') \<and>
     loc_optimizers_and_lr_schs r =
       [(''optimizer'',
         Optimizer \<lparr>adam_params_of = loc_model r, adam_lr = 1 / 1000, adam_weight_decay = 0\<rparr>),
        (''lr_scheduler'',
         LrSchConfig
           [(''scheduler'',
             \<lparr>sched_optimizer = \<lparr>adam_params_of = loc_model r, adam_lr = 1 / 1000,
                                  adam_weight_decay = 0\<rparr>,
              sched_T_max = 100\<rparr>)])]"
proof -
  from example_completes obtain r w' where
    run: "main example_cfg example_env example_world = (Inr r, w')" by blast
  from optimizer_is_adam_with_cosine_annealing[OF run] run show ?thesis
    by (auto simp: example_cfg_def)
qed

text \<open>
  C5. For each of the splits train, val and test, the dataset handed to the data loader of
  that split is built from exactly the rows of the CSV at \<^verbatim>\<open>cfg.csv_path\<close> whose
  \<^verbatim>\<open>fold\<close> is in the split's configured fold list, in the order of the file; a row
  whose fold is in none of the three lists is in no split; the train dataset is built with
  \<^verbatim>\<open>validation = not cfg.aug\<close>, the val and test datasets with \<^verbatim>\<open>validation = True\<close>.
\<close>

theorem datasets_follow_configured_folds:
  assumes "main cfg env w = (Inr r, w')"
  shows "\<exists>df_all. map_of (csv_files env) (csv_path cfg) = Some df_all \<and>
     ds_rows (dl_dataset (loc_train_dl r)) =
       filter (\<lambda>row. fold_col row \<in> set (train_folds cfg)) df_all \<and>
     ds_rows (dl_dataset (loc_val_dl r)) =
       filter (\<lambda>row. fold_col row \<in> set (val_folds cfg)) df_all \<and>
     ds_rows (dl_dataset (loc_test_dl r)) =
       filter (\<lambda>row. fold_col row \<in> set (test_folds cfg)) df_all \<and>
     (\<forall>row. fold_col row \<notin> set (train_folds cfg) \<union> set (val_folds cfg) \<union> set (test_folds cfg) \<longrightarrow>
        row \<notin> set (ds_rows (dl_dataset (loc_train_dl r))) \<union>
              set (ds_rows (dl_dataset (loc_val_dl r))) \<union>
              set (ds_rows (dl_dataset (loc_test_dl r)))) \<and>
     ds_validation (dl_dataset (loc_train_dl r)) = (\<not> aug cfg) \<and>
     ds_validation (dl_dataset (loc_val_dl r)) \<and>
     ds_validation (dl_dataset (loc_test_dl r))"
  using assms
proof (cases rule: main_locals)
  case (1 df_all)
  then show ?thesis
    by (intro exI[of _ df_all])
       (simp add: SegOAI_dataset_def dfs_def rows_in_folds_def train_dataloader_def
          eval_dataloader_def)
qed

theorem datasets_follow_configured_folds_witness:
  "\<exists>r w'. main example_cfg example_env example_world = (Inr r, w') \<and>
     map rest_of_row (ds_rows (dl_dataset (loc_train_dl r))) = [''a'', ''d''] \<and>
     map rest_of_row (ds_rows (dl_dataset (loc_val_dl r))) = [''b'', ''f''] \<and>
     map rest_of_row (ds_rows (dl_dataset (loc_test_dl r))) = [''c''] \<and>
     \<lparr>fold_col = 7, rest_of_row = ''e''\<rparr> \<notin>
        set (ds_rows (dl_dataset (loc_train_dl r))) \<union>
        set (ds_rows (dl_dataset (loc_val_dl r))) \<union>
        set (ds_rows (dl_dataset (loc_test_dl r))) \<and>
     \<not> ds_validation (dl_dataset (loc_train_dl r)) \<and>
     ds_validation (dl_dataset (loc_val_dl r)) \<and>
     ds_validation (dl_dataset (loc_test_dl r))"
proof -
  from example_completes obtain r w' where
    run: "main example_cfg example_env example_world = (Inr r, w')" by blast
  from datasets_follow_configured_folds[OF run] run show ?thesis
    by (auto simp: example_cfg_def example_env_def example_rows_def)
qed

text \<open>
  C9. The Lightning module receives one and the same dictionary as its validation metrics
  and as its test metrics: the single entry \<^verbatim>\<open>dice\<close>, a \<^verbatim>\<open>MetricDice\<close> on the prediction
  \<^verbatim>\<open>model.logits.head_seg\<close> and the target \<^verbatim>\<open>seg\<close>; its train metrics are empty. The
  metric's pre-collect function is \<^verbatim>\<open>pre_process_for_dice\<close>: on a sample that has both
  entries, it replaces each of them with its argmax over axis 0 and returns the sample; no
  other key of the sample ever changes.
\<close>

theorem dice_metric_with_argmax_preprocessing:
  assumes "main cfg env w = (Inr r, w')"
  shows "\<exists>dice.
     pl_validation_metrics (loc_pl_module r) = [(''dice'', dice)] \<and>
     pl_test_metrics (loc_pl_module r) = [(''dice'', dice)] \<and>
     pl_train_metrics (loc_pl_module r) = [] \<and>
     metric_pred dice = ''model.logits.head_seg'' \<and> metric_target dice = ''seg'' \<and>
     pre_collect_process_func dice = pre_process_for_dice env \<and>
     (\<forall>sample0 logits seg a b.
        sample0 ''model.logits.head_seg'' = Some logits \<longrightarrow> sample0 ''seg'' = Some seg \<longrightarrow>
        argmax_axis0 env logits = Inr a \<longrightarrow> argmax_axis0 env seg = Inr b \<longrightarrow>
        pre_collect_process_func dice sample0 =
          (None, sample0(''model.logits.head_seg'' \<mapsto> a, ''seg'' \<mapsto> b))) \<and>
     (\<forall>sample0 k. k \<noteq> ''model.logits.head_seg'' \<longrightarrow> k \<noteq> ''seg'' \<longrightarrow>
        snd (pre_collect_process_func dice sample0) k = sample0 k)"
  using assms
proof (cases rule: main_locals)
  case (1 df_all)
  let ?dice = "\<lparr>metric_pred = ''model.logits.head_seg'', metric_target = ''seg'',
        pre_collect_process_func = pre_process_for_dice env\<rparr>"
  have other: "snd (pre_process_for_dice env sample0) k = sample0 k"
    if "k \<noteq> ''model.logits.head_seg''" "k \<noteq> ''seg''" for sample0 k
    using that by (simp add: pre_process_for_dice_def Let_def split: option.splits sum.splits)
  have both: "pre_process_for_dice env sample0 =
          (None, sample0(''model.logits.head_seg'' \<mapsto> a, ''seg'' \<mapsto> b))"
    if "sample0 ''model.logits.head_seg'' = Some logits" "sample0 ''seg'' = Some seg"
       "argmax_axis0 env logits = Inr a" "argmax_axis0 env seg = Inr b"
    for sample0 logits seg a b
    using that by (simp add: pre_process_for_dice_def Let_def)
  from 1 other both show ?thesis
    by (intro exI[of _ ?dice]) (simp add: pl_module_def val_metrics_def train_metrics_def)
qed

theorem dice_metric_with_argmax_preprocessing_witness:
  "\<exists>r w' dice. main example_cfg example_env example_world = (Inr r, w') \<and>
     pl_validation_metrics (loc_pl_module r) = [(''dice'', dice)] \<and>
     pl_test_metrics (loc_pl_module r) = [(''dice'', dice)] \<and>
     pl_train_metrics (loc_pl_module r) = [] \<and>
     pre_collect_process_func dice example_sample =
       (None, example_sample(''model.logits.head_seg'' \<mapsto> \<lparr>shape = [3], content = [1, 0, 0]\<rparr>,
                             ''seg'' \<mapsto> \<lparr>shape = [3], content = [1, 0, 1]\<rparr>)) \<and>
     snd (pre_collect_process_func dice example_sample) ''img'' =
       Some \<lparr>shape = [1, 3], content = [9, 9, 9]\<rparr>"
proof -
  from example_completes obtain r w' where
    run: "main example_cfg example_env example_world = (Inr r, w')" by blast
  from dice_metric_with_argmax_preprocessing[OF run] obtain dice where
    d: "pl_validation_metrics (loc_pl_module r) = [(''dice'', dice)]"
       "pl_test_metrics (loc_pl_module r) = [(''dice'', dice)]"
       "pl_train_metrics (loc_pl_module r) = []"
    and both: "\<And>sample0 logits seg a b.
        sample0 ''model.logits.head_seg'' = Some logits \<Longrightarrow> sample0 ''seg'' = Some seg \<Longrightarrow>
        argmax_axis0 example_env logits = Inr a \<Longrightarrow> argmax_axis0 example_env seg = Inr b \<Longrightarrow>
        pre_collect_process_func dice sample0 =
          (None, sample0(''model.logits.head_seg'' \<mapsto> a, ''seg'' \<mapsto> b))"
    and other: "\<And>sample0 k. k \<noteq> ''model.logits.head_seg'' \<Longrightarrow> k \<noteq> ''seg'' \<Longrightarrow>
        snd (pre_collect_process_func dice sample0) k = sample0 k"
    by blast
  have a: "argmax_axis0 example_env \<lparr>shape = [2, 3], content = [1, 5, 2, 4, 5, 0]\<rparr> =
             Inr \<lparr>shape = [3], content = [1, 0, 0]\<rparr>"
    by (simp add: example_env_def example_argmax_def first_max_def upt_rec)
  have b: "argmax_axis0 example_env \<lparr>shape = [2, 3], content = [0, 1, 0, 1, 0, 1]\<rparr> =
             Inr \<lparr>shape = [3], content = [1, 0, 1]\<rparr>"
    by (simp add: example_env_def example_argmax_def first_max_def upt_rec)
  have "pre_collect_process_func dice example_sample =
       (None, example_sample(''model.logits.head_seg'' \<mapsto> \<lparr>shape = [3], content = [1, 0, 0]\<rparr>,
                             ''seg'' \<mapsto> \<lparr>shape = [3], content = [1, 0, 1]\<rparr>))"
    by (rule both[OF _ _ a b]) (simp_all add: example_sample_def)
  moreover have "snd (pre_collect_process_func dice example_sample) ''img'' =
       Some \<lparr>shape = [1, 3], content = [9, 9, 9]\<rparr>"
    by (simp add: other example_sample_def)
  ultimately show ?thesis using run d by blast
qed

text \<open>
  C4. When \<^verbatim>\<open>cfg.test_ckpt\<close> is \<^verbatim>\<open>None\<close> and \<^verbatim>\<open>cfg.resume_training_from\<close> is not, the
  checkpoint path given to \<^verbatim>\<open>pl_trainer.fit\<close> is \<^verbatim>\<open>cfg.ckpt_path\<close>. The value of
  \<^verbatim>\<open>cfg.resume_training_from\<close> only enables that branch: with any other value that is not
  \<^verbatim>\<open>None\<close> in its place, the run binds the same objects and makes the same trainer call.
\<close>

theorem fit_resumes_from_cfg_ckpt_path:
  assumes "main cfg env w = (Inr r, w')"
      and "test_ckpt cfg = None" and "resume_training_from cfg = Some p"
  shows "trainer_calls w' = trainer_calls w @
           [Fit (loc_pl_module r) (loc_train_dl r) (loc_val_dl r) (ckpt_path cfg)] \<and>
         (\<forall>q. \<exists>w''. main (cfg\<lparr>resume_training_from := Some q\<rparr>) env w = (Inr r, w'') \<and>
                 trainer_calls w'' = trainer_calls w')"
proof
  from main_trainer_calls[OF assms(1)] assms(2) have
    "trainer_calls w' = trainer_calls w @
       [Fit (loc_pl_module r) (loc_train_dl r) (loc_val_dl r) (loc_ckpt_path r)]"
    by auto
  moreover from assms(1,3) have "loc_ckpt_path r = ckpt_path cfg"
    by (cases rule: main_locals) (simp add: resume_ckpt_path_def)
  ultimately show "trainer_calls w' = trainer_calls w @
           [Fit (loc_pl_module r) (loc_train_dl r) (loc_val_dl r) (ckpt_path cfg)]" by simp
next
  show "\<forall>q. \<exists>w''. main (cfg\<lparr>resume_training_from := Some q\<rparr>) env w = (Inr r, w'') \<and>
                 trainer_calls w'' = trainer_calls w'"
  proof
    fix q
    from assms(3) have "resume_training_from cfg \<noteq> None" by simp
    from main_resume_value_irrelevant[OF assms(1) this, of q] obtain cs where
      "main (cfg\<lparr>resume_training_from := Some q\<rparr>) env w = (Inr r, w'\<lparr>clearml_calls := cs\<rparr>)"
      by blast
    then show "\<exists>w''. main (cfg\<lparr>resume_training_from := Some q\<rparr>) env w = (Inr r, w'') \<and>
                 trainer_calls w'' = trainer_calls w'" by simp
  qed
qed

theorem fit_resumes_from_cfg_ckpt_path_witness:
  "\<exists>r w'. main example_resume_cfg example_env example_world = (Inr r, w') \<and>
     trainer_calls w' =
       [Fit (loc_pl_module r) (loc_train_dl r) (loc_val_dl r) (Some ''last.ckpt'')] \<and>
     (\<exists>w''. main (example_resume_cfg\<lparr>resume_training_from := Some ''no''\<rparr>)
                example_env example_world = (Inr r, w'') \<and>
             trainer_calls w'' = trainer_calls w')"
proof -
  from example_resume_completes obtain r w' where
    run: "main example_resume_cfg example_env example_world = (Inr r, w')" by blast
  have t: "test_ckpt example_resume_cfg = None"
    and s: "resume_training_from example_resume_cfg = Some ''yes''"
    by (simp_all add: example_resume_cfg_def example_cfg_def)
  from fit_resumes_from_cfg_ckpt_path[OF run t s] run show ?thesis
    by (auto simp: example_resume_cfg_def example_cfg_def example_world_def)
qed

end
